theory Spec2Isabelle
  imports Main
begin

section \<open>The asset service: data model\<close>

text \<open>
  A shallow embedding of \<^verbatim>\<open>AssetService\<close> (src/index.ts). A \<^verbatim>\<open>Date\<close> and a
  \<^verbatim>\<open>Dayjs\<close> are both an instant, modelled as an integer (epoch milliseconds);
  \<^verbatim>\<open>a.isBefore(b)\<close> is \<open>a < b\<close>. A nullable field is an \<open>option\<close>. A \<^verbatim>\<open>number\<close>
  (amounts, durations) is an \<open>int\<close>: the service never computes with one, it only
  stores it or hands it to the date helpers. Every instant is a valid date: Day.js's
  invalid date is not modelled. An \<^verbatim>\<open>async\<close> method is a function from the world to its
  result, a value or the error it rejects with, and the world it leaves.
\<close>

type_synonym time = int

text \<open>What an awaited call can throw: Prisma's \<^verbatim>\<open>update\<close> rejects when no row has
  the id (record not found), reading a property of \<^verbatim>\<open>null\<close> is a TypeError, and a call
  to a downstream service of the binding can reject.\<close>

datatype error = RecordNotFound | TypeError | DownstreamError

text \<open>Modelled from the spec: \<^verbatim>\<open>OrderTargetEnums\<close> (src/dto/consts is not among the
  sources). The spec gives the target kind as Activate | Renewal; any other stored value
  is kept with its text, for the unknown-target message.\<close>

datatype order_target = Activate | Renewal | OtherTarget string

text \<open>Modelled from the spec: \<^verbatim>\<open>AssetOrderStatusEnums\<close> (src/dto/consts), the four derived
  states Unpaid, Paid, RefundPending, Refunded. \<open>NoStatus\<close> is the empty string that
  \<^verbatim>\<open>mapOrderStatus\<close> returns last.\<close>

datatype order_status = Unpaid | Paid | RefundPending | Refunded | NoStatus

record AssetServicePeriodOrder =
  order_id :: string
  orderTarget :: order_target
  processedAt :: "time option"
  paidAmount :: "int option"
  paidAt :: "time option"
  externalOrderNumber :: "string option"
  refundApplyAt :: "time option"
  refundedAmount :: "int option"
  refundedAt :: "time option"
  servicePeriod :: int
  servicePeriodTimeUnit :: string
  giftDuration :: "int option"
  giftTimeUnit :: "string option"
  isNeedProfitSharing :: bool

record Asset =
  asset_id :: string
  asset_merchantId :: "string option"
  userId :: "string option"
  trackerId :: "string option"
  serviceStartTime :: "time option"
  serviceEndTime :: "time option"
  trackerBoundAt :: "time option"

record Tracker =
  tracker_id :: string
  trackerNumber :: string
  trackerModelId :: string
  silentPeriodEndTime :: "time option"

record TrackerWithAsset = Tracker +
  asset :: Asset

record TrackerModel =
  model_id :: string

record DevicePackageWithModel =
  package_id :: string
  package_merchantId :: "string option"
  isRelatedOpen :: bool
  trackereModels :: "TrackerModel list"

record OpenRule =
  chargeDuration :: int
  chargeTimeUnit :: string

record DeviceWithDevicePackageAndOpenRule =
  dp_tracker :: TrackerWithAsset
  devicePackage :: DevicePackageWithModel
  openRule :: OpenRule

record Rule =
  duration :: int
  timeUnit :: string

record ServiceTimeRange =
  startTime :: time
  endTime :: time

record DeviceWithServiceTimeRange =
  tracker :: TrackerWithAsset
  serviceTimeRange :: "ServiceTimeRange option"

record User =
  user_id :: string

record Coupon =
  coupon_id :: string
  activity :: string
  usedAt :: "time option"
  coupon_orderId :: "string option"

record AssetNotificationConfig =
  config_id :: string
  kind :: string
  appNotification :: bool
  smsNotification :: bool
  phoneNotification :: bool
  wechatNotification :: bool
  phoneAlarmStartTime :: string
  phoneAlarmEndTime :: string
  smsAlarmStartTime :: string
  smsAlarmEndTime :: string
  createdAt :: time
  createdBy :: string
  config_assetId :: string
  updatedAt :: time
  updatedBy :: string

section \<open>The collaborators\<close>

text \<open>
  The helpers and constants the service imports from files that are not among the
  sources are parameters: \<^verbatim>\<open>calculateEndTime\<close> (src/dto/logic/calculate),
  \<^verbatim>\<open>parseDate\<close> (src/common/time-helper, applied to the tracker's nullable field),
  \<^verbatim>\<open>ActivityEnums.DOUBLE_TWELVE\<close> and \<^verbatim>\<open>Object.values(AlarmTypeEnums)\<close> (src/dto/consts).
\<close>

record Helpers =
  calculateEndTime :: "time \<Rightarrow> int \<Rightarrow> string \<Rightarrow> time"
  parseDate :: "time option \<Rightarrow> time"
  DOUBLE_TWELVE :: string
  alarmTypes :: "string list"

text \<open>The tables Prisma reads and writes. A table keyed by its primary key is a map;
  the notification configs are only ever created, so they are a list in creation order.\<close>

record Db =
  orders :: "string \<rightharpoonup> AssetServicePeriodOrder"
  assets :: "string \<rightharpoonup> Asset"
  coupons :: "string \<rightharpoonup> Coupon"
  notificationConfigs :: "AssetNotificationConfig list"

datatype CdcEvent = DeviceChanged string

text \<open>
  The world an operation runs in: the database, the clock behind \<^verbatim>\<open>getNow()\<close> (each call
  reads the next instant, so two calls may differ), the source of \<^verbatim>\<open>createUUID()\<close>, one
  log per downstream service, recording in order what the service has done, and for each
  call of the binding's fan-out whether the service rejects it.
\<close>

record World =
  prisma :: Db
  clock :: "nat \<Rightarrow> time"
  clockReads :: nat
  uuids :: "nat \<Rightarrow> string"
  uuidReads :: nat
  cdcSent :: "CdcEvent list"
  profitSharingRecords :: "AssetServicePeriodOrder list"
  alarmRefreshed :: "string list"
  statusCleared :: "(string \<times> string) list list"
  refreshRejects :: "string \<Rightarrow> bool"
  statusClearRejects :: bool
  cdcBatchRejects :: bool

definition getNow :: "World \<Rightarrow> time \<times> World" where
  "getNow w = (clock w (clockReads w), w\<lparr>clockReads := Suc (clockReads w)\<rparr>)"

definition createUUID :: "World \<Rightarrow> string \<times> World" where
  "createUUID w = (uuids w (uuidReads w), w\<lparr>uuidReads := Suc (uuidReads w)\<rparr>)"

text \<open>Modelled from the spec: \<^verbatim>\<open>isNullOrEmptyString\<close> (src/common/string-helper): the
  renewal consumes a coupon when \<^verbatim>\<open>attach\<close> carries a non-empty value.\<close>

definition isNullOrEmptyString :: "string option \<Rightarrow> bool" where
  "isNullOrEmptyString s = (s = None \<or> s = Some [])"

subsection \<open>Prisma\<close>

text \<open>A Prisma call is lazy: it is a statement that runs when awaited or when a
  transaction runs it. \<^verbatim>\<open>update\<close> changes the fields of \<^verbatim>\<open>data\<close> in the row with the
  id and rejects when there is none; \<^verbatim>\<open>create\<close> adds a row.\<close>

type_synonym PrismaPromise = "Db \<Rightarrow> error + Db"

definition prisma_assetServicePeriodOrder_update ::
  "string \<Rightarrow> (AssetServicePeriodOrder \<Rightarrow> AssetServicePeriodOrder) \<Rightarrow> PrismaPromise" where
  "prisma_assetServicePeriodOrder_update i f d =
     (case orders d i of
        None \<Rightarrow> Inl RecordNotFound
      | Some row \<Rightarrow> Inr (d\<lparr>orders := (orders d)(i \<mapsto> f row)\<rparr>))"

definition prisma_asset_update :: "string \<Rightarrow> (Asset \<Rightarrow> Asset) \<Rightarrow> PrismaPromise" where
  "prisma_asset_update i f d =
     (case assets d i of
        None \<Rightarrow> Inl RecordNotFound
      | Some row \<Rightarrow> Inr (d\<lparr>assets := (assets d)(i \<mapsto> f row)\<rparr>))"

definition prisma_coupon_update :: "string \<Rightarrow> (Coupon \<Rightarrow> Coupon) \<Rightarrow> PrismaPromise" where
  "prisma_coupon_update i f d =
     (case coupons d i of
        None \<Rightarrow> Inl RecordNotFound
      | Some row \<Rightarrow> Inr (d\<lparr>coupons := (coupons d)(i \<mapsto> f row)\<rparr>))"

text \<open>\<^verbatim>\<open>coupon.findFirst({ where: { id, activity, usedAt: null } })\<close>: the row under the
  key, when its three columns satisfy the filter.\<close>

definition prisma_coupon_findFirst :: "string \<Rightarrow> string \<Rightarrow> Db \<Rightarrow> Coupon option" where
  "prisma_coupon_findFirst i act d =
     (case coupons d i of
        None \<Rightarrow> None
      | Some c \<Rightarrow>
          if coupon_id c = i \<and> activity c = act \<and> usedAt c = None then Some c else None)"

definition prisma_assetNotificationConfig_create :: "AssetNotificationConfig \<Rightarrow> PrismaPromise" where
  "prisma_assetNotificationConfig_create c d =
     Inr (d\<lparr>notificationConfigs := notificationConfigs d @ [c]\<rparr>)"

text \<open>Awaiting one statement: its writes land, or it throws and nothing is written.\<close>

definition await :: "PrismaPromise \<Rightarrow> World \<Rightarrow> (error + unit) \<times> World" where
  "await p w =
     (case p (prisma w) of
        Inl e \<Rightarrow> (Inl e, w)
      | Inr d \<Rightarrow> (Inr (), w\<lparr>prisma := d\<rparr>))"

text \<open>\<^verbatim>\<open>prisma.$transaction(tasks)\<close>: the statements run in order; when one rejects the
  transaction rolls back, so the database is the one before the first statement.\<close>

fun runTasks :: "PrismaPromise list \<Rightarrow> Db \<Rightarrow> error + Db" where
  "runTasks [] d = Inr d"
| "runTasks (t # ts) d = (case t d of Inl e \<Rightarrow> Inl e | Inr d' \<Rightarrow> runTasks ts d')"

definition prisma_transaction :: "PrismaPromise list \<Rightarrow> World \<Rightarrow> (error + unit) \<times> World" where
  "prisma_transaction tasks w =
     (case runTasks tasks (prisma w) of
        Inl e \<Rightarrow> (Inl e, w)
      | Inr d \<Rightarrow> (Inr (), w\<lparr>prisma := d\<rparr>))"

subsection \<open>Downstream services\<close>

text \<open>The settlement handlers call the change-data-capture publisher and the
  profit-sharing service last, after all their writes: there a call is recorded in the
  service's log and returns.\<close>

definition sendToCDC :: "CdcEvent \<Rightarrow> World \<Rightarrow> World" where
  "sendToCDC ev w = w\<lparr>cdcSent := cdcSent w @ [ev]\<rparr>"

definition createProfitSharingRecord :: "AssetServicePeriodOrder \<Rightarrow> World \<Rightarrow> World" where
  "createProfitSharingRecord order w =
     w\<lparr>profitSharingRecords := profitSharingRecords w @ [order]\<rparr>"

text \<open>The binding calls its three services after the transaction has committed and
  awaits them with no handler, so a rejection there is the binding's own. Each of these
  calls either does its work, which the log records, or rejects and does nothing.\<close>

definition alarmConfig_refresh :: "string \<Rightarrow> World \<Rightarrow> (error + unit) \<times> World" where
  "alarmConfig_refresh assetId w =
     (if refreshRejects w assetId then (Inl DownstreamError, w)
      else (Inr (), w\<lparr>alarmRefreshed := alarmRefreshed w @ [assetId]\<rparr>))"

definition batchClearRealtimeStatus ::
  "(string \<times> string) list \<Rightarrow> World \<Rightarrow> (error + unit) \<times> World" where
  "batchClearRealtimeStatus devices w =
     (if statusClearRejects w then (Inl DownstreamError, w)
      else (Inr (), w\<lparr>statusCleared := statusCleared w @ [devices]\<rparr>))"

definition sendToCDCBatch :: "CdcEvent list \<Rightarrow> World \<Rightarrow> (error + unit) \<times> World" where
  "sendToCDCBatch evs w =
     (if cdcBatchRejects w then (Inl DownstreamError, w)
      else (Inr (), w\<lparr>cdcSent := cdcSent w @ evs\<rparr>))"

text \<open>\<^verbatim>\<open>devices.map(value => this.alarmConfig.refresh(value.tracker.asset.id))\<close>: every
  call is made, whatever the others do; the list holds how each one settled.\<close>

fun refreshAll :: "string list \<Rightarrow> World \<Rightarrow> (error + unit) list \<times> World" where
  "refreshAll [] w = ([], w)"
| "refreshAll (assetId # rest) w =
     (let (settled, w1) = alarmConfig_refresh assetId w;
          (others, w2) = refreshAll rest w1
      in (settled # others, w2))"

text \<open>\<^verbatim>\<open>await Promise.all(promises)\<close>: it rejects when one of the promises has
  rejected.\<close>

fun promiseAll :: "(error + unit) list \<Rightarrow> error + unit" where
  "promiseAll [] = Inr ()"
| "promiseAll (Inl e # rest) = Inl e"
| "promiseAll (Inr u # rest) = promiseAll rest"

section \<open>Package resolver\<close>

definition isModelMatch :: "TrackerWithAsset \<Rightarrow> DevicePackageWithModel \<Rightarrow> bool" where
  "isModelMatch trackerWithAsset pkg =
     list_ex (\<lambda>deviceModel. model_id deviceModel = trackerModelId trackerWithAsset)
       (trackereModels pkg)"

definition isMerchantMatch :: "TrackerWithAsset \<Rightarrow> DevicePackageWithModel \<Rightarrow> bool" where
  "isMerchantMatch trackerWithAsset pkg =
     (package_merchantId pkg = asset_merchantId (asset trackerWithAsset))"

definition isPlatformMatch :: "DevicePackageWithModel \<Rightarrow> bool" where
  "isPlatformMatch pkg = (package_merchantId pkg = None)"

definition findDevicePackageByDevice ::
  "TrackerWithAsset \<Rightarrow> DevicePackageWithModel list \<Rightarrow> DevicePackageWithModel option" where
  "findDevicePackageByDevice trackerWithAsset devicePackages =
     (case find (\<lambda>pkg. isMerchantMatch trackerWithAsset pkg
                    \<and> isModelMatch trackerWithAsset pkg) devicePackages of
        Some merchantDevicePackages \<Rightarrow> Some merchantDevicePackages
      | None \<Rightarrow>
          find (\<lambda>pkg. isPlatformMatch pkg
                    \<and> isModelMatch trackerWithAsset pkg) devicePackages)"

section \<open>Service window calculator\<close>

definition calculateServiceTimeRangeForOpen ::
  "Helpers \<Rightarrow> 'a Tracker_scheme \<Rightarrow> Rule \<Rightarrow> Rule option \<Rightarrow> World \<Rightarrow> ServiceTimeRange \<times> World" where
  "calculateServiceTimeRangeForOpen lib trk rule gift w =
     (let silentEnd = parseDate lib (silentPeriodEndTime trk);
          (now, w') = getNow w;
          calculateEndTimeForGift = (\<lambda>start.
             let e = calculateEndTime lib start (duration rule) (timeUnit rule)
             in case gift of
                  None \<Rightarrow> e
                | Some g \<Rightarrow> calculateEndTime lib e (duration g) (timeUnit g))
      in if now < silentEnd
         then (\<lparr>startTime = now, endTime = calculateEndTimeForGift now\<rparr>, w')
         else (\<lparr>startTime = silentEnd, endTime = calculateEndTimeForGift silentEnd\<rparr>, w'))"

text \<open>Modelled from the spec: \<^verbatim>\<open>calculateServiceEndTimeForRenew\<close> (src/dto/logic/calculate
  is not among the sources): advance the current service end time by the rule's duration
  and unit, then by the gift's when there is one.\<close>

definition calculateServiceEndTimeForRenew :: "Helpers \<Rightarrow> time \<Rightarrow> Rule \<Rightarrow> Rule option \<Rightarrow> time" where
  "calculateServiceEndTimeForRenew lib currentServiceEndTime rule gift =
     (let e = calculateEndTime lib currentServiceEndTime (duration rule) (timeUnit rule)
      in case gift of
           None \<Rightarrow> e
         | Some g \<Rightarrow> calculateEndTime lib e (duration g) (timeUnit g))"

section \<open>Order settlement\<close>

definition mapOrderStatus :: "AssetServicePeriodOrder \<Rightarrow> order_status" where
  "mapOrderStatus order =
     (if paidAt order = None then Unpaid
      else if paidAt order \<noteq> None \<and> refundedAt order = None then Paid
      else if refundApplyAt order \<noteq> None \<and> refundedAt order = None then RefundPending
      else if refundedAt order \<noteq> None then Refunded
      else NoStatus)"

text \<open>The gift argument both settlement handlers build:
  \<^verbatim>\<open>giftDuration == null || giftTimeUnit == null ? null : { duration, timeUnit }\<close>.\<close>

definition orderGift :: "AssetServicePeriodOrder \<Rightarrow> Rule option" where
  "orderGift order =
     (case giftDuration order of
        None \<Rightarrow> None
      | Some d \<Rightarrow>
          (case giftTimeUnit order of
             None \<Rightarrow> None
           | Some u \<Rightarrow> Some \<lparr>duration = d, timeUnit = u\<rparr>))"

definition orderRule :: "AssetServicePeriodOrder \<Rightarrow> Rule" where
  "orderRule order = \<lparr>duration = servicePeriod order, timeUnit = servicePeriodTimeUnit order\<rparr>"

text \<open>The three messages the settlement handlers report, as the source's template
  strings build them.\<close>

definition processedMessage :: "AssetServicePeriodOrder \<Rightarrow> string" where
  "processedMessage order =
     ''order has been processed, we just ignore it, order id: '' @ order_id order"

definition refundedMessage :: "AssetServicePeriodOrder \<Rightarrow> string" where
  "refundedMessage order =
     ''order has been refunded, we just ignore it, order id: '' @ order_id order"

definition renewNullEndTimeMessage :: "Asset \<Rightarrow> AssetServicePeriodOrder \<Rightarrow> string" where
  "renewNullEndTimeMessage userAsset order =
     ''userAsset service end time is null, we can not renew it, userAsset id: ''
       @ asset_id userAsset @ '', order id: '' @ order_id order"

definition handleRefundSuccess ::
  "AssetServicePeriodOrder \<Rightarrow> int \<Rightarrow> time \<Rightarrow> World \<Rightarrow> (error + string option) \<times> World" where
  "handleRefundSuccess order amount refundedAt' w =
     (if refundedAt order \<noteq> None
      then (Inr (Some (refundedMessage order)), w)
      else
        (case await (prisma_assetServicePeriodOrder_update (order_id order)
                (\<lambda>row. row\<lparr>refundedAmount := Some amount, refundedAt := Some refundedAt'\<rparr>)) w of
           (Inl e, w1) \<Rightarrow> (Inl e, w1)
         | (Inr _, w1) \<Rightarrow> (Inr None, w1)))"

definition handleActivateSuccess ::
  "Helpers \<Rightarrow> AssetServicePeriodOrder \<Rightarrow> int \<Rightarrow> time \<Rightarrow> 'a Tracker_scheme \<Rightarrow> Asset \<Rightarrow> string
     \<Rightarrow> World \<Rightarrow> (error + string option) \<times> World" where
  "handleActivateSuccess lib order amount paidAt' trk userAsset transactionId w =
     (let (processedNow, w1) = getNow w in
      case await (prisma_assetServicePeriodOrder_update (order_id order)
              (\<lambda>row. row\<lparr>paidAmount := Some amount, paidAt := Some paidAt',
                          externalOrderNumber := Some transactionId,
                          processedAt := Some processedNow\<rparr>)) w1 of
        (Inl e, w2) \<Rightarrow> (Inl e, w2)
      | (Inr _, w2) \<Rightarrow>
          (let (timeRange, w3) =
                 calculateServiceTimeRangeForOpen lib trk (orderRule order) (orderGift order) w2 in
           case await (prisma_asset_update (asset_id userAsset)
                   (\<lambda>row. row\<lparr>serviceStartTime := Some (startTime timeRange),
                               serviceEndTime := Some (endTime timeRange)\<rparr>)) w3 of
             (Inl e, w4) \<Rightarrow> (Inl e, w4)
           | (Inr _, w4) \<Rightarrow>
               (let w5 = sendToCDC (DeviceChanged (tracker_id trk)) w4;
                    w6 = (if isNeedProfitSharing order
                          then createProfitSharingRecord order w5 else w5)
                in (Inr None, w6))))"

text \<open>The coupon step of the renewal: when \<^verbatim>\<open>attach\<close> is a non-empty string, look for the
  unused coupon of the promotion with that id and mark it used by this order.\<close>

definition consumeCoupon ::
  "Helpers \<Rightarrow> AssetServicePeriodOrder \<Rightarrow> string option \<Rightarrow> World \<Rightarrow> (error + unit) \<times> World" where
  "consumeCoupon lib order attach w =
     (if isNullOrEmptyString attach = False
      then
        (case attach of
           None \<Rightarrow> (Inr (), w)
         | Some couponId \<Rightarrow>
             (case prisma_coupon_findFirst couponId (DOUBLE_TWELVE lib) (prisma w) of
                None \<Rightarrow> (Inr (), w)
              | Some coupon \<Rightarrow>
                  (let (usedNow, w1) = getNow w in
                   await (prisma_coupon_update (coupon_id coupon)
                     (\<lambda>row. row\<lparr>usedAt := Some usedNow,
                                 coupon_orderId := Some (order_id order)\<rparr>)) w1)))
      else (Inr (), w))"

definition handleRenewSuccess ::
  "Helpers \<Rightarrow> AssetServicePeriodOrder \<Rightarrow> int \<Rightarrow> time \<Rightarrow> Asset \<Rightarrow> string \<Rightarrow> string option
     \<Rightarrow> World \<Rightarrow> (error + string option) \<times> World" where
  "handleRenewSuccess lib order amount paidAt' userAsset transactionId attach w =
     (let (processedNow, w1) = getNow w in
      case await (prisma_assetServicePeriodOrder_update (order_id order)
              (\<lambda>row. row\<lparr>paidAmount := Some amount, paidAt := Some paidAt',
                          externalOrderNumber := Some transactionId,
                          processedAt := Some processedNow\<rparr>)) w1 of
        (Inl e, w2) \<Rightarrow> (Inl e, w2)
      | (Inr _, w2) \<Rightarrow>
          (case serviceEndTime userAsset of
             None \<Rightarrow>
               (Inr (Some (renewNullEndTimeMessage userAsset order)), w2)
           | Some currentServiceEndTime \<Rightarrow>
               (case consumeCoupon lib order attach w2 of
                  (Inl e, w3) \<Rightarrow> (Inl e, w3)
                | (Inr _, w3) \<Rightarrow>
                    (let newServiceEndTime =
                           calculateServiceEndTimeForRenew lib currentServiceEndTime
                             (orderRule order) (orderGift order) in
                     case await (prisma_asset_update (asset_id userAsset)
                             (\<lambda>row. row\<lparr>serviceEndTime := Some newServiceEndTime\<rparr>)) w3 of
                       (Inl e, w4) \<Rightarrow> (Inl e, w4)
                     | (Inr _, w4) \<Rightarrow>
                         (let w5 = (case trackerId userAsset of
                                      None \<Rightarrow> w4
                                    | Some tid \<Rightarrow> sendToCDC (DeviceChanged tid) w4);
                              w6 = (if isNeedProfitSharing order
                                    then createProfitSharingRecord order w5 else w5)
                          in (Inr None, w6))))))"

definition handlePaySuccess ::
  "Helpers \<Rightarrow> AssetServicePeriodOrder \<Rightarrow> int \<Rightarrow> time \<Rightarrow> 'a Tracker_scheme \<Rightarrow> Asset \<Rightarrow> string
     \<Rightarrow> string option \<Rightarrow> World \<Rightarrow> (error + string option) \<times> World" where
  "handlePaySuccess lib order amount paidAt' trk userAsset transactionId attach w =
     (if processedAt order \<noteq> None
      then (Inr (Some (processedMessage order)), w)
      else
        (case orderTarget order of
           Activate \<Rightarrow> handleActivateSuccess lib order amount paidAt' trk userAsset transactionId w
         | Renewal \<Rightarrow> handleRenewSuccess lib order amount paidAt' userAsset transactionId attach w
         | OtherTarget target \<Rightarrow>
             (Inr (Some (''unknown order target: '' @ target @ '', order id: '' @ order_id order)), w)))"

section \<open>Binding orchestrator\<close>

text \<open>The inner \<^verbatim>\<open>forEach\<close> over the alarm types: one create statement each, with a fresh
  UUID and two readings of the clock.\<close>

fun notificationConfigTasks ::
  "string \<Rightarrow> string \<Rightarrow> string list \<Rightarrow> World \<Rightarrow> PrismaPromise list \<times> World" where
  "notificationConfigTasks accountId assetId [] w = ([], w)"
| "notificationConfigTasks accountId assetId (alarmType # rest) w =
     (let (uuid, w1) = createUUID w;
          (created, w2) = getNow w1;
          (updated, w3) = getNow w2;
          task = prisma_assetNotificationConfig_create
            \<lparr>config_id = uuid, kind = alarmType,
             appNotification = False, smsNotification = False,
             phoneNotification = False, wechatNotification = False,
             phoneAlarmStartTime = ''00:00'', phoneAlarmEndTime = ''23:59'',
             smsAlarmStartTime = ''00:00'', smsAlarmEndTime = ''23:59'',
             createdAt = created, createdBy = accountId, config_assetId = assetId,
             updatedAt = updated, updatedBy = accountId\<rparr>;
          (tasks, w4) = notificationConfigTasks accountId assetId rest w3
      in (task # tasks, w4))"

text \<open>The asset statement of one device. For a device that was never activated the
  source reads \<^verbatim>\<open>x.serviceTimeRange!.endTime\<close>: with no window that read throws.\<close>

definition assetTask :: "string \<Rightarrow> time \<Rightarrow> DeviceWithServiceTimeRange \<Rightarrow> error + PrismaPromise" where
  "assetTask uid nowtime x =
     (if serviceEndTime (asset (tracker x)) \<noteq> None
      then Inr (prisma_asset_update (asset_id (asset (tracker x)))
             (\<lambda>row. row\<lparr>userId := Some uid, serviceStartTime := Some nowtime,
                         trackerBoundAt := Some nowtime\<rparr>))
      else
        (case serviceTimeRange x of
           None \<Rightarrow> Inl TypeError
         | Some window \<Rightarrow>
             Inr (prisma_asset_update (asset_id (asset (tracker x)))
               (\<lambda>row. row\<lparr>userId := Some uid, serviceStartTime := Some nowtime,
                           serviceEndTime := Some (endTime window),
                           trackerBoundAt := Some nowtime\<rparr>))))"

text \<open>The outer \<^verbatim>\<open>forEach\<close>, collecting the statements: an exception leaves the loop, and
  the statements collected so far are never run.\<close>

fun buildTasks ::
  "Helpers \<Rightarrow> string \<Rightarrow> string \<Rightarrow> time \<Rightarrow> DeviceWithServiceTimeRange list \<Rightarrow> World
     \<Rightarrow> (error + PrismaPromise list) \<times> World" where
  "buildTasks lib accountId uid nowtime [] w = (Inr [], w)"
| "buildTasks lib accountId uid nowtime (x # xs) w =
     (case assetTask uid nowtime x of
        Inl e \<Rightarrow> (Inl e, w)
      | Inr task \<Rightarrow>
          (let (configs, w1) =
                 notificationConfigTasks accountId (asset_id (asset (tracker x))) (alarmTypes lib) w
           in case buildTasks lib accountId uid nowtime xs w1 of
                (Inl e, w2) \<Rightarrow> (Inl e, w2)
              | (Inr tasks, w2) \<Rightarrow> (Inr (task # configs @ tasks), w2)))"

definition bindDeviceToUserCore ::
  "Helpers \<Rightarrow> string \<Rightarrow> DeviceWithServiceTimeRange list \<Rightarrow> string
     \<Rightarrow> World \<Rightarrow> (error + unit) \<times> World" where
  "bindDeviceToUserCore lib accountId devicesWithServiceTimeRange uid w =
     (let (nowtime, w1) = getNow w in
      case buildTasks lib accountId uid nowtime devicesWithServiceTimeRange w1 of
        (Inl e, w2) \<Rightarrow> (Inl e, w2)
      | (Inr tasks, w2) \<Rightarrow>
          (case prisma_transaction tasks w2 of
             (Inl e, w3) \<Rightarrow> (Inl e, w3)
           | (Inr _, w3) \<Rightarrow>
               (let (createAlarmConfigTasks, w4) =
                      refreshAll (map (\<lambda>x. asset_id (asset (tracker x)))
                                    devicesWithServiceTimeRange) w3;
                    (clearStatus, w5) =
                      batchClearRealtimeStatus
                        (map (\<lambda>x. (tracker_id (tracker x), trackerNumber (tracker x)))
                           devicesWithServiceTimeRange) w4
                in case promiseAll (createAlarmConfigTasks @ [clearStatus]) of
                     Inl e \<Rightarrow> (Inl e, w5)
                   | Inr _ \<Rightarrow>
                       sendToCDCBatch
                         (map (\<lambda>x. DeviceChanged (tracker_id (tracker x)))
                            devicesWithServiceTimeRange) w5)))"

text \<open>The \<^verbatim>\<open>map\<close> of \<^verbatim>\<open>bindDevicesToUser\<close>: a window for the devices whose package opens
  on binding, none for the others.\<close>

fun serviceTimeRanges ::
  "Helpers \<Rightarrow> DeviceWithDevicePackageAndOpenRule list \<Rightarrow> World
     \<Rightarrow> DeviceWithServiceTimeRange list \<times> World" where
  "serviceTimeRanges lib [] w = ([], w)"
| "serviceTimeRanges lib (v # vs) w =
     (let (window, w1) =
            (if isRelatedOpen (devicePackage v)
             then (let (r, w') = calculateServiceTimeRangeForOpen lib (dp_tracker v)
                                   \<lparr>duration = chargeDuration (openRule v),
                                    timeUnit = chargeTimeUnit (openRule v)\<rparr> None w
                   in (Some r, w'))
             else (None, w));
          (rest, w2) = serviceTimeRanges lib vs w1
      in (\<lparr>tracker = dp_tracker v, serviceTimeRange = window\<rparr> # rest, w2))"

definition bindDevicesToUser ::
  "Helpers \<Rightarrow> string \<Rightarrow> DeviceWithDevicePackageAndOpenRule list \<Rightarrow> User
     \<Rightarrow> World \<Rightarrow> (error + unit) \<times> World" where
  "bindDevicesToUser lib accountId devicesWithPackage user w =
     (let (devicesWithServiceTimeRange, w1) = serviceTimeRanges lib devicesWithPackage w
      in bindDeviceToUserCore lib accountId devicesWithServiceTimeRange (user_id user) w1)"

section \<open>Bound assets\<close>


section \<open>Example data\<close>

text \<open>
  Concrete inputs on which the theorems below are evaluated. Instants are day numbers
  of 2024 (5 is 2024-01-05, 42 is 2024-02-11), and the example date helper knows the
  unit \<^verbatim>\<open>day\<close> only.
\<close>

definition exampleLib :: Helpers where
  "exampleLib =
     \<lparr>calculateEndTime = (\<lambda>start n unit. if unit = ''day'' then start + n else start),
      parseDate = (\<lambda>d. case d of None \<Rightarrow> 0 | Some t \<Rightarrow> t),
      DOUBLE_TWELVE = ''DOUBLE_TWELVE'',
      alarmTypes = [''sos'', ''lowBattery'']\<rparr>"

definition exampleAsset :: Asset where
  "exampleAsset =
     \<lparr>asset_id = ''a1'', asset_merchantId = Some ''m1'', userId = None,
      trackerId = Some ''t1'', serviceStartTime = Some 1, serviceEndTime = Some 31,
      trackerBoundAt = None\<rparr>"

definition exampleNewAsset :: Asset where
  "exampleNewAsset =
     \<lparr>asset_id = ''a2'', asset_merchantId = Some ''m1'', userId = None,
      trackerId = Some ''t2'', serviceStartTime = None, serviceEndTime = None,
      trackerBoundAt = None\<rparr>"

definition exampleTracker :: TrackerWithAsset where
  "exampleTracker =
     \<lparr>tracker_id = ''t1'', trackerNumber = ''n1'', trackerModelId = ''model1'',
      silentPeriodEndTime = Some 10, asset = exampleAsset\<rparr>"

definition exampleNewTracker :: TrackerWithAsset where
  "exampleNewTracker =
     \<lparr>tracker_id = ''t2'', trackerNumber = ''n2'', trackerModelId = ''model1'',
      silentPeriodEndTime = Some 10, asset = exampleNewAsset\<rparr>"

definition exampleOrder :: AssetServicePeriodOrder where
  "exampleOrder =
     \<lparr>order_id = ''o1'', orderTarget = Renewal, processedAt = None, paidAmount = None,
      paidAt = None, externalOrderNumber = None, refundApplyAt = None,
      refundedAmount = None, refundedAt = None, servicePeriod = 30,
      servicePeriodTimeUnit = ''day'', giftDuration = Some 7, giftTimeUnit = Some ''day'',
      isNeedProfitSharing = False\<rparr>"

definition exampleDb :: Db where
  "exampleDb =
     \<lparr>orders = [''o1'' \<mapsto> exampleOrder],
      assets = [''a1'' \<mapsto> exampleAsset, ''a2'' \<mapsto> exampleNewAsset],
      coupons = Map.empty,
      notificationConfigs = []\<rparr>"

definition exampleWorld :: World where
  "exampleWorld =
     \<lparr>prisma = exampleDb, clock = (\<lambda>n. 5 + int n), clockReads = 0,
      uuids = (\<lambda>n. replicate (Suc n) CHR ''u''), uuidReads = 0,
      cdcSent = [], profitSharingRecords = [], alarmRefreshed = [], statusCleared = [],
      refreshRejects = (\<lambda>assetId. False), statusClearRejects = False,
      cdcBatchRejects = False\<rparr>"

definition platformPackage :: DevicePackageWithModel where
  "platformPackage =
     \<lparr>package_id = ''p0'', package_merchantId = None, isRelatedOpen = False,
      trackereModels = [\<lparr>model_id = ''model1''\<rparr>]\<rparr>"

definition merchantPackage :: DevicePackageWithModel where
  "merchantPackage =
     \<lparr>package_id = ''p1'', package_merchantId = Some ''m1'', isRelatedOpen = True,
      trackereModels = [\<lparr>model_id = ''model0''\<rparr>, \<lparr>model_id = ''model1''\<rparr>]\<rparr>"

text \<open>Three batches: one that binds, one whose second device has no asset row, and one
  (with its packages) whose second device was never activated and has a package that
  does not open on binding.\<close>

definition exampleBatch :: "DeviceWithServiceTimeRange list" where
  "exampleBatch =
     [\<lparr>tracker = exampleTracker, serviceTimeRange = None\<rparr>,
      \<lparr>tracker = exampleNewTracker,
       serviceTimeRange = Some \<lparr>startTime = 5, endTime = 35\<rparr>\<rparr>]"

definition exampleBrokenBatch :: "DeviceWithServiceTimeRange list" where
  "exampleBrokenBatch =
     [\<lparr>tracker = exampleTracker, serviceTimeRange = None\<rparr>,
      \<lparr>tracker = exampleNewTracker\<lparr>asset := exampleNewAsset\<lparr>asset_id := ''a9''\<rparr>\<rparr>,
       serviceTimeRange = Some \<lparr>startTime = 5, endTime = 35\<rparr>\<rparr>]"

definition exampleDevices :: "DeviceWithDevicePackageAndOpenRule list" where
  "exampleDevices =
     [\<lparr>dp_tracker = exampleTracker, devicePackage = merchantPackage,
       openRule = \<lparr>chargeDuration = 30, chargeTimeUnit = ''day''\<rparr>\<rparr>,
      \<lparr>dp_tracker = exampleNewTracker, devicePackage = platformPackage,
       openRule = \<lparr>chargeDuration = 30, chargeTimeUnit = ''day''\<rparr>\<rparr>]"

lemmas example_defs =
  exampleLib_def exampleAsset_def exampleNewAsset_def exampleTracker_def
  exampleNewTracker_def exampleOrder_def exampleDb_def exampleWorld_def
  platformPackage_def merchantPackage_def exampleBatch_def exampleBrokenBatch_def
  exampleDevices_def

section \<open>Prisma statements and the steps of a settlement\<close>

lemma await_order_update:
  "await (prisma_assetServicePeriodOrder_update i f) w =
     (case orders (prisma w) i of
        None \<Rightarrow> (Inl RecordNotFound, w)
      | Some row \<Rightarrow>
          (Inr (), w\<lparr>prisma := (prisma w)\<lparr>orders := (orders (prisma w))(i \<mapsto> f row)\<rparr>\<rparr>))"
  by (simp add: await_def prisma_assetServicePeriodOrder_update_def split: option.splits)

lemma await_asset_update:
  "await (prisma_asset_update i f) w =
     (case assets (prisma w) i of
        None \<Rightarrow> (Inl RecordNotFound, w)
      | Some row \<Rightarrow>
          (Inr (), w\<lparr>prisma := (prisma w)\<lparr>assets := (assets (prisma w))(i \<mapsto> f row)\<rparr>\<rparr>))"
  by (simp add: await_def prisma_asset_update_def split: option.splits)

text \<open>The coupon step never throws: the coupon it updates is the one it has just found.
  It either changes nothing or marks that one coupon used.\<close>

lemma consumeCoupon_cases:
  "consumeCoupon lib order attach w = (Inr (), w) \<or>
   (\<exists>i c. attach = Some i \<and> coupons (prisma w) i = Some c \<and>
      consumeCoupon lib order attach w =
        (Inr (), w\<lparr>clockReads := Suc (clockReads w),
                   prisma := (prisma w)\<lparr>coupons := (coupons (prisma w))
                     (i \<mapsto> c\<lparr>usedAt := Some (clock w (clockReads w)),
                              coupon_orderId := Some (order_id order)\<rparr>)\<rparr>\<rparr>))"
  by (auto simp: consumeCoupon_def prisma_coupon_findFirst_def getNow_def await_def prisma_coupon_update_def
      split: option.splits)

lemma consumeCoupon_frame:
  "fst (consumeCoupon lib order attach w) = Inr ()"
  "orders (prisma (snd (consumeCoupon lib order attach w))) = orders (prisma w)"
  "assets (prisma (snd (consumeCoupon lib order attach w))) = assets (prisma w)"
  using consumeCoupon_cases [of lib order attach w] by auto

text \<open>A renewal for an asset without a service end time: the order row is written
  first, then the handler returns its message.\<close>

lemma handleRenewSuccess_null:
  "serviceEndTime userAsset = None \<Longrightarrow>
   handleRenewSuccess lib order amount t userAsset tx attach w =
     (case orders (prisma w) (order_id order) of
        None \<Rightarrow> (Inl RecordNotFound, w\<lparr>clockReads := Suc (clockReads w)\<rparr>)
      | Some row \<Rightarrow>
          (Inr (Some (renewNullEndTimeMessage userAsset order)),
           w\<lparr>clockReads := Suc (clockReads w),
             prisma := (prisma w)\<lparr>orders := (orders (prisma w))
               (order_id order \<mapsto> row\<lparr>paidAmount := Some amount, paidAt := Some t,
                   externalOrderNumber := Some tx,
                   processedAt := Some (clock w (clockReads w))\<rparr>)\<rparr>\<rparr>))"
  by (simp add: handleRenewSuccess_def getNow_def await_order_update split: option.splits)

text \<open>Whenever a handler returns normally, the order's row carries a processing time.\<close>

lemma handleActivateSuccess_processed:
  fixes trk :: "'a Tracker_scheme"
  assumes "handleActivateSuccess lib order amount t trk userAsset tx w = (Inr res, w1)"
  shows "\<exists>row. orders (prisma w1) (order_id order) = Some row \<and> processedAt row \<noteq> None"
  using assms
  apply (simp add: handleActivateSuccess_def getNow_def await_order_update await_asset_update
      split: option.splits prod.splits sum.splits if_splits)
   apply (auto simp: sendToCDC_def createProfitSharingRecord_def
      calculateServiceTimeRangeForOpen_def getNow_def Let_def split: if_splits)
  done

lemma handleRenewSuccess_processed:
  assumes "handleRenewSuccess lib order amount t userAsset tx attach w = (Inr res, w1)"
  shows "\<exists>row. orders (prisma w1) (order_id order) = Some row \<and> processedAt row \<noteq> None"
proof (cases "orders (prisma w) (order_id order)")
  case None
  with assms show ?thesis
    by (simp add: handleRenewSuccess_def getNow_def await_order_update)
next
  case (Some row)
  let ?w2 = "w\<lparr>clockReads := Suc (clockReads w),
             prisma := (prisma w)\<lparr>orders := (orders (prisma w))
               (order_id order \<mapsto> row\<lparr>paidAmount := Some amount, paidAt := Some t,
                   externalOrderNumber := Some tx,
                   processedAt := Some (clock w (clockReads w))\<rparr>)\<rparr>\<rparr>"
  show ?thesis
  proof (cases "serviceEndTime userAsset")
    case None
    with assms Some show ?thesis by (auto simp: handleRenewSuccess_null)
  next
    case (Some e)
    obtain u w3 where cc: "consumeCoupon lib order attach ?w2 = (Inr u, w3)"
      using consumeCoupon_frame(1) [of lib order attach ?w2]
      by (cases "consumeCoupon lib order attach ?w2") auto
    have o3: "orders (prisma w3) = orders (prisma ?w2)"
      using consumeCoupon_frame(2) [of lib order attach ?w2] cc by simp
    from assms \<open>orders (prisma w) (order_id order) = Some row\<close> Some cc o3 show ?thesis
      by (auto simp: handleRenewSuccess_def getNow_def await_order_update await_asset_update
          sendToCDC_def createProfitSharingRecord_def Let_def
          split: option.splits if_splits)
  qed
qed

section \<open>Settlement of a payment\<close>

text \<open>
  Claim C1. When the order passed to \<^verbatim>\<open>handlePaySuccess\<close> already has a processing time,
  the call returns the already-processed message and leaves the whole world as it was:
  no row of any table is written, no downstream service is called, the clock is not even
  read. In particular, when a first call has settled the order (it returned none), the
  order's row then carries a processing time, and a second call given that row, whatever
  its other arguments, is such a no-op.
\<close>

theorem handlePaySuccess_processed_noop:
  fixes trk :: "'a Tracker_scheme"
  shows "(processedAt order \<noteq> None \<longrightarrow>
            handlePaySuccess lib order amount t trk userAsset tx attach w =
              (Inr (Some (processedMessage order)), w))
       \<and> (handlePaySuccess lib order amount t trk userAsset tx attach w = (Inr None, w1) \<longrightarrow>
            (\<exists>row. orders (prisma w1) (order_id order) = Some row \<and> processedAt row \<noteq> None \<and>
               (\<forall>amount2 t2 (trk2 :: 'b Tracker_scheme) userAsset2 tx2 attach2.
                  handlePaySuccess lib row amount2 t2 trk2 userAsset2 tx2 attach2 w1 =
                    (Inr (Some (processedMessage row)), w1))))"
proof (intro conjI impI)
  assume "processedAt order \<noteq> None"
  then show "handlePaySuccess lib order amount t trk userAsset tx attach w =
        (Inr (Some (processedMessage order)), w)"
    by (simp add: handlePaySuccess_def)
next
  assume first: "handlePaySuccess lib order amount t trk userAsset tx attach w = (Inr None, w1)"
  then have "\<exists>row. orders (prisma w1) (order_id order) = Some row \<and> processedAt row \<noteq> None"
    by (auto simp: handlePaySuccess_def split: if_splits order_target.splits
        dest: handleActivateSuccess_processed handleRenewSuccess_processed)
  then obtain row where row: "orders (prisma w1) (order_id order) = Some row"
    "processedAt row \<noteq> None" by blast
  then show "\<exists>row. orders (prisma w1) (order_id order) = Some row \<and> processedAt row \<noteq> None \<and>
           (\<forall>amount2 t2 (trk2 :: 'b Tracker_scheme) userAsset2 tx2 attach2.
              handlePaySuccess lib row amount2 t2 trk2 userAsset2 tx2 attach2 w1 =
                (Inr (Some (processedMessage row)), w1))"
    by (auto simp: handlePaySuccess_def)
qed

text \<open>On the example: the renewal order o1 settles against the activated asset a1; the
  row then has a processing time and the second call changes nothing. An order that
  arrives already processed is refused at once.\<close>

theorem handlePaySuccess_processed_noop_witness:
  "processedAt (exampleOrder\<lparr>processedAt := Some 3\<rparr>) \<noteq> None
 \<and> handlePaySuccess exampleLib (exampleOrder\<lparr>processedAt := Some 3\<rparr>) 100 6 exampleTracker
       exampleAsset ''wx1'' None exampleWorld =
     (Inr (Some ''order has been processed, we just ignore it, order id: o1''), exampleWorld)
 \<and> fst (handlePaySuccess exampleLib exampleOrder 100 6 exampleTracker exampleAsset ''wx1'' None
       exampleWorld) = Inr None
 \<and> (\<exists>row. orders (prisma (snd (handlePaySuccess exampleLib exampleOrder 100 6 exampleTracker
                exampleAsset ''wx1'' None exampleWorld))) ''o1'' = Some row
        \<and> processedAt row \<noteq> None
        \<and> handlePaySuccess exampleLib row 100 6 exampleTracker exampleAsset ''wx1'' None
            (snd (handlePaySuccess exampleLib exampleOrder 100 6 exampleTracker
                exampleAsset ''wx1'' None exampleWorld)) =
          (Inr (Some (processedMessage row)),
           snd (handlePaySuccess exampleLib exampleOrder 100 6 exampleTracker
                exampleAsset ''wx1'' None exampleWorld)))"
proof -
  let ?r = "handlePaySuccess exampleLib exampleOrder 100 6 exampleTracker exampleAsset ''wx1''
              None exampleWorld"
  have settled: "fst ?r = Inr None"
    by (simp add: handlePaySuccess_def handleRenewSuccess_def getNow_def await_order_update
        await_asset_update consumeCoupon_def isNullOrEmptyString_def sendToCDC_def Let_def
        example_defs)
  then have first: "?r = (Inr None, snd ?r)"
    by (simp add: prod_eq_iff)
  have oid: "order_id exampleOrder = ''o1''"
    by (simp add: exampleOrder_def)
  have dup: "handlePaySuccess exampleLib (exampleOrder\<lparr>processedAt := Some 3\<rparr>) 100 6 exampleTracker
       exampleAsset ''wx1'' None exampleWorld =
     (Inr (Some ''order has been processed, we just ignore it, order id: o1''), exampleWorld)"
    using handlePaySuccess_processed_noop
      [THEN conjunct1, of "exampleOrder\<lparr>processedAt := Some 3\<rparr>" exampleLib 100 6
        exampleTracker exampleAsset "''wx1''" None exampleWorld]
    by (simp add: processedMessage_def exampleOrder_def)
  from handlePaySuccess_processed_noop
      [of exampleOrder exampleLib 100 6 exampleTracker exampleAsset "''wx1''" None exampleWorld
        "snd ?r", where ?'b = "\<lparr>asset :: Asset\<rparr>"] first oid
  obtain row where "orders (prisma (snd ?r)) ''o1'' = Some row" "processedAt row \<noteq> None"
    "handlePaySuccess exampleLib row 100 6 exampleTracker exampleAsset ''wx1'' None (snd ?r) =
       (Inr (Some (processedMessage row)), snd ?r)"
    by auto
  with settled dup show ?thesis by auto
qed

text \<open>
  Claim C3. For every renewal order whose asset has no service end time,
  \<^verbatim>\<open>handlePaySuccess\<close> writes no asset, no coupon and no notification config, sends no
  change event and requests no profit sharing: the write that needs the service end
  time does not proceed. When renewal handling is reached, that is when the order is not
  yet processed, and the order's row exists, the call reports the message that the
  service end time is null. (An order that is already processed is answered by the guard
  before renewal handling, with the already-processed message and no change at all.)
\<close>

theorem handlePaySuccess_renew_null:
  fixes trk :: "'a Tracker_scheme"
  assumes "orderTarget order = Renewal" and "serviceEndTime userAsset = None"
  shows "(let r = handlePaySuccess lib order amount t trk userAsset tx attach w; w1 = snd r
          in assets (prisma w1) = assets (prisma w)
           \<and> coupons (prisma w1) = coupons (prisma w)
           \<and> notificationConfigs (prisma w1) = notificationConfigs (prisma w)
           \<and> cdcSent w1 = cdcSent w
           \<and> profitSharingRecords w1 = profitSharingRecords w
           \<and> (processedAt order = None \<and> orders (prisma w) (order_id order) \<noteq> None
                \<longrightarrow> fst r = Inr (Some (renewNullEndTimeMessage userAsset order)))
           \<and> (processedAt order \<noteq> None \<longrightarrow> r = (Inr (Some (processedMessage order)), w)))"
  using assms
  by (auto simp: handlePaySuccess_def handleRenewSuccess_null Let_def split: option.splits)

theorem handlePaySuccess_renew_null_witness:
  "orderTarget exampleOrder = Renewal
 \<and> serviceEndTime exampleNewAsset = None
 \<and> processedAt exampleOrder = None
 \<and> orders (prisma exampleWorld) (order_id exampleOrder) \<noteq> None
 \<and> fst (handlePaySuccess exampleLib exampleOrder 100 6 exampleNewTracker exampleNewAsset ''wx1''
          None exampleWorld)
     = Inr (Some ''userAsset service end time is null, we can not renew it, userAsset id: a2, order id: o1'')
 \<and> assets (prisma (snd (handlePaySuccess exampleLib exampleOrder 100 6 exampleNewTracker
          exampleNewAsset ''wx1'' None exampleWorld))) = assets (prisma exampleWorld)"
proof -
  have hyps: "orderTarget exampleOrder = Renewal" "serviceEndTime exampleNewAsset = None"
    "processedAt exampleOrder = None" "orders (prisma exampleWorld) (order_id exampleOrder) \<noteq> None"
    by (simp_all add: example_defs)
  have msg: "renewNullEndTimeMessage exampleNewAsset exampleOrder =
    ''userAsset service end time is null, we can not renew it, userAsset id: a2, order id: o1''"
    by (simp add: renewNullEndTimeMessage_def example_defs)
  from handlePaySuccess_renew_null
      [OF hyps(1,2), of exampleLib 100 6 exampleNewTracker "''wx1''" None exampleWorld] hyps msg
  show ?thesis by (simp add: Let_def)
qed

text \<open>
  Claim C10. In the renewal handler the order's row gets its payment fields and its
  processing time before the asset's service end time is looked at. So for a renewal
  order, not yet processed and stored, on an asset that was never activated: the first
  call reports that the service end time is null, the row is nevertheless marked
  processed (at the instant the clock showed), and every later call given that row
  reports the already-processed message and changes nothing.
\<close>

theorem handlePaySuccess_renew_null_marks_processed:
  fixes trk :: "'a Tracker_scheme"
  assumes "orderTarget order = Renewal" and "processedAt order = None"
    and "serviceEndTime userAsset = None"
    and "orders (prisma w) (order_id order) = Some row"
  shows "(let r = handlePaySuccess lib order amount t trk userAsset tx attach w;
              w1 = snd r;
              row1 = row\<lparr>paidAmount := Some amount, paidAt := Some t,
                        externalOrderNumber := Some tx,
                        processedAt := Some (clock w (clockReads w))\<rparr>
          in fst r = Inr (Some (renewNullEndTimeMessage userAsset order))
           \<and> orders (prisma w1) (order_id order) = Some row1
           \<and> (\<forall>amount2 t2 (trk2 :: 'b Tracker_scheme) userAsset2 tx2 attach2.
                 handlePaySuccess lib row1 amount2 t2 trk2 userAsset2 tx2 attach2 w1 =
                   (Inr (Some (processedMessage row1)), w1)))"
  using assms by (simp add: handlePaySuccess_def handleRenewSuccess_null Let_def)

theorem handlePaySuccess_renew_null_marks_processed_witness:
  "orderTarget exampleOrder = Renewal \<and> processedAt exampleOrder = None
 \<and> serviceEndTime exampleNewAsset = None
 \<and> orders (prisma exampleWorld) (order_id exampleOrder) = Some exampleOrder
 \<and> fst (handlePaySuccess exampleLib exampleOrder 100 6 exampleNewTracker exampleNewAsset
          ''wx1'' None exampleWorld)
     = Inr (Some (renewNullEndTimeMessage exampleNewAsset exampleOrder))
 \<and> orders (prisma (snd (handlePaySuccess exampleLib exampleOrder 100 6 exampleNewTracker
          exampleNewAsset ''wx1'' None exampleWorld))) ''o1''
     = Some (exampleOrder\<lparr>paidAmount := Some 100, paidAt := Some 6,
               externalOrderNumber := Some ''wx1'', processedAt := Some 5\<rparr>)
 \<and> fst (handlePaySuccess exampleLib
          (exampleOrder\<lparr>paidAmount := Some 100, paidAt := Some 6,
               externalOrderNumber := Some ''wx1'', processedAt := Some 5\<rparr>)
          200 8 exampleNewTracker exampleNewAsset ''wx2'' None
          (snd (handlePaySuccess exampleLib exampleOrder 100 6 exampleNewTracker
             exampleNewAsset ''wx1'' None exampleWorld)))
     = Inr (Some ''order has been processed, we just ignore it, order id: o1'')"
proof -
  have hyps: "orderTarget exampleOrder = Renewal" "processedAt exampleOrder = None"
    "serviceEndTime exampleNewAsset = None"
    "orders (prisma exampleWorld) (order_id exampleOrder) = Some exampleOrder"
    by (simp_all add: example_defs)
  have now: "clock exampleWorld (clockReads exampleWorld) = 5"
    and oid: "order_id exampleOrder = ''o1''"
    by (simp_all add: example_defs)
  have msg: "processedMessage (exampleOrder\<lparr>paidAmount := Some 100, paidAt := Some 6,
               externalOrderNumber := Some ''wx1'', processedAt := Some 5\<rparr>)
          = ''order has been processed, we just ignore it, order id: o1''"
    by (simp add: processedMessage_def exampleOrder_def)
  note th = handlePaySuccess_renew_null_marks_processed
    [OF hyps, of exampleLib 100 6 exampleNewTracker "''wx1''" None,
      where ?'b = "\<lparr>asset :: Asset\<rparr>", unfolded Let_def now oid]
  from th have "fst (handlePaySuccess exampleLib
          (exampleOrder\<lparr>paidAmount := Some 100, paidAt := Some 6,
               externalOrderNumber := Some ''wx1'', processedAt := Some 5\<rparr>)
          200 8 exampleNewTracker exampleNewAsset ''wx2'' None
          (snd (handlePaySuccess exampleLib exampleOrder 100 6 exampleNewTracker
             exampleNewAsset ''wx1'' None exampleWorld)))
     = Inr (Some ''order has been processed, we just ignore it, order id: o1'')"
    by (simp add: msg)
  with th hyps show ?thesis by simp
qed

section \<open>Renewal\<close>

text \<open>
  Claim C5. A renewal that finds the asset activated (service end time \<open>e\<close>) and finds the
  rows of the order and of the asset settles, and the asset's new service end time is
  \<open>e\<close> advanced by the order's service period and unit and then, when the order has both
  gift fields, by the gift duration and unit. This holds whatever the clock shows: the
  new end time does not depend on the current time.
\<close>

theorem handleRenewSuccess_extends_from_end_time:
  assumes "serviceEndTime userAsset = Some e"
    and "orders (prisma w) (order_id order) = Some orow"
    and "assets (prisma w) (asset_id userAsset) = Some arow"
  shows "\<forall>c. (let r = handleRenewSuccess lib order amount t userAsset tx attach (w\<lparr>clock := c\<rparr>);
                 afterRule = calculateEndTime lib e (servicePeriod order) (servicePeriodTimeUnit order);
                 newEnd = (case (giftDuration order, giftTimeUnit order) of
                             (Some d, Some u) \<Rightarrow> calculateEndTime lib afterRule d u
                           | _ \<Rightarrow> afterRule)
             in fst r = Inr None
              \<and> assets (prisma (snd r)) (asset_id userAsset)
                  = Some (arow\<lparr>serviceEndTime := Some newEnd\<rparr>))"
proof
  fix c
  let ?w2 = "w\<lparr>clock := c, clockReads := Suc (clockReads w),
             prisma := (prisma w)\<lparr>orders := (orders (prisma w))
               (order_id order \<mapsto> orow\<lparr>paidAmount := Some amount, paidAt := Some t,
                   externalOrderNumber := Some tx,
                   processedAt := Some (c (clockReads w))\<rparr>)\<rparr>\<rparr>"
  obtain u w3 where cc: "consumeCoupon lib order attach ?w2 = (Inr u, w3)"
    using consumeCoupon_frame(1) [of lib order attach ?w2]
    by (cases "consumeCoupon lib order attach ?w2") auto
  have a3: "assets (prisma w3) = assets (prisma w)"
    using consumeCoupon_frame(3) [of lib order attach ?w2] cc by simp
  show "(let r = handleRenewSuccess lib order amount t userAsset tx attach (w\<lparr>clock := c\<rparr>);
                 afterRule = calculateEndTime lib e (servicePeriod order) (servicePeriodTimeUnit order);
                 newEnd = (case (giftDuration order, giftTimeUnit order) of
                             (Some d, Some u) \<Rightarrow> calculateEndTime lib afterRule d u
                           | _ \<Rightarrow> afterRule)
             in fst r = Inr None
              \<and> assets (prisma (snd r)) (asset_id userAsset)
                  = Some (arow\<lparr>serviceEndTime := Some newEnd\<rparr>))"
    using assms cc a3
    by (auto simp: handleRenewSuccess_def getNow_def await_order_update await_asset_update
          sendToCDC_def createProfitSharingRecord_def Let_def
          calculateServiceEndTimeForRenew_def orderRule_def orderGift_def
          split: option.splits if_splits)
qed

text \<open>On the example the asset is paid through day 31; 30 days and a gift of 7 give day
  68, whether the renewal is processed on day 5 or on day 1000.\<close>

theorem handleRenewSuccess_extends_from_end_time_witness:
  "serviceEndTime exampleAsset = Some 31
 \<and> orders (prisma exampleWorld) (order_id exampleOrder) = Some exampleOrder
 \<and> assets (prisma exampleWorld) (asset_id exampleAsset) = Some exampleAsset
 \<and> fst (handleRenewSuccess exampleLib exampleOrder 100 6 exampleAsset ''wx1'' None
          (exampleWorld\<lparr>clock := (\<lambda>n. 5)\<rparr>)) = Inr None
 \<and> assets (prisma (snd (handleRenewSuccess exampleLib exampleOrder 100 6 exampleAsset ''wx1''
          None (exampleWorld\<lparr>clock := (\<lambda>n. 5)\<rparr>)))) ''a1''
     = Some (exampleAsset\<lparr>serviceEndTime := Some 68\<rparr>)
 \<and> assets (prisma (snd (handleRenewSuccess exampleLib exampleOrder 100 6 exampleAsset ''wx1''
          None (exampleWorld\<lparr>clock := (\<lambda>n. 1000)\<rparr>)))) ''a1''
     = Some (exampleAsset\<lparr>serviceEndTime := Some 68\<rparr>)"
proof -
  have hyps: "serviceEndTime exampleAsset = Some 31"
    "orders (prisma exampleWorld) (order_id exampleOrder) = Some exampleOrder"
    "assets (prisma exampleWorld) (asset_id exampleAsset) = Some exampleAsset"
    by (simp_all add: example_defs)
  have aid: "asset_id exampleAsset = ''a1''"
    by (simp add: exampleAsset_def)
  have newEnd: "(case (giftDuration exampleOrder, giftTimeUnit exampleOrder) of
                   (Some d, Some u) \<Rightarrow>
                     calculateEndTime exampleLib
                       (calculateEndTime exampleLib 31 (servicePeriod exampleOrder)
                          (servicePeriodTimeUnit exampleOrder)) d u
                 | _ \<Rightarrow> calculateEndTime exampleLib 31 (servicePeriod exampleOrder)
                          (servicePeriodTimeUnit exampleOrder)) = 68"
    by (simp add: exampleOrder_def exampleLib_def)
  note th = handleRenewSuccess_extends_from_end_time
    [OF hyps, of exampleLib 100 6 "''wx1''" None, unfolded Let_def newEnd aid]
  from th [rule_format, of "\<lambda>n. 5"] th [rule_format, of "\<lambda>n. 1000"] hyps
  show ?thesis by simp
qed

section \<open>Refunds\<close>

text \<open>
  Claim C9. \<^verbatim>\<open>handleRefundSuccess\<close> on an order that already has a refund time returns the
  already-refunded message and leaves the world as it was. Otherwise, when the order's
  row exists, it returns none and the only change to the world is that this row has the
  refunded amount and the refund time set: no asset, coupon or notification config is
  written and no downstream service is called, so the service time is not rolled back.
  When the row does not exist the update throws and nothing changes.
\<close>

theorem handleRefundSuccess_idempotent:
  "(refundedAt order \<noteq> None \<longrightarrow>
      handleRefundSuccess order amount t w = (Inr (Some (refundedMessage order)), w))
 \<and> (refundedAt order = None \<longrightarrow> orders (prisma w) (order_id order) = Some row \<longrightarrow>
      handleRefundSuccess order amount t w =
        (Inr None, w\<lparr>prisma := (prisma w)\<lparr>orders := (orders (prisma w))
            (order_id order \<mapsto> row\<lparr>refundedAmount := Some amount, refundedAt := Some t\<rparr>)\<rparr>\<rparr>))
 \<and> (refundedAt order = None \<longrightarrow> orders (prisma w) (order_id order) = None \<longrightarrow>
      handleRefundSuccess order amount t w = (Inl RecordNotFound, w))"
  by (simp add: handleRefundSuccess_def await_order_update)

theorem handleRefundSuccess_idempotent_witness:
  "refundedAt (exampleOrder\<lparr>refundedAt := Some 9\<rparr>) \<noteq> None
 \<and> handleRefundSuccess (exampleOrder\<lparr>refundedAt := Some 9\<rparr>) 100 12 exampleWorld
     = (Inr (Some ''order has been refunded, we just ignore it, order id: o1''), exampleWorld)
 \<and> refundedAt exampleOrder = None
 \<and> orders (prisma exampleWorld) (order_id exampleOrder) = Some exampleOrder
 \<and> fst (handleRefundSuccess exampleOrder 100 12 exampleWorld) = Inr None
 \<and> orders (prisma (snd (handleRefundSuccess exampleOrder 100 12 exampleWorld))) ''o1''
     = Some (exampleOrder\<lparr>refundedAmount := Some 100, refundedAt := Some 12\<rparr>)
 \<and> assets (prisma (snd (handleRefundSuccess exampleOrder 100 12 exampleWorld)))
     = assets (prisma exampleWorld)"
proof -
  have hyps: "refundedAt (exampleOrder\<lparr>refundedAt := Some 9\<rparr>) \<noteq> None"
    "refundedAt exampleOrder = None"
    "orders (prisma exampleWorld) (order_id exampleOrder) = Some exampleOrder"
    by (simp_all add: example_defs)
  have msg: "refundedMessage (exampleOrder\<lparr>refundedAt := Some 9\<rparr>)
      = ''order has been refunded, we just ignore it, order id: o1''"
    and oid: "order_id exampleOrder = ''o1''"
    by (simp_all add: refundedMessage_def exampleOrder_def)
  from handleRefundSuccess_idempotent
      [of "exampleOrder\<lparr>refundedAt := Some 9\<rparr>" 100 12 exampleWorld]
    handleRefundSuccess_idempotent [of exampleOrder 100 12 exampleWorld exampleOrder]
    hyps msg oid
  show ?thesis by simp
qed

section \<open>The derived order status\<close>

text \<open>
  Claim C7. The claim fails on the code: \<^verbatim>\<open>mapOrderStatus\<close> tests Paid (paid and not
  refunded) before RefundPending (refund applied for and not refunded), and an order
  that reaches the second test is paid and refunded. So RefundPending is never the
  result, and an order with a refund applied for and no refund time is Unpaid or Paid.
\<close>

theorem mapOrderStatus_never_refund_pending:
  "mapOrderStatus order \<noteq> RefundPending
 \<and> (refundedAt order = None \<longrightarrow>
      mapOrderStatus order = (if paidAt order = None then Unpaid else Paid))"
  by (simp add: mapOrderStatus_def)

theorem mapOrderStatus_never_refund_pending_witness:
  "refundApplyAt (exampleOrder\<lparr>paidAt := Some 6, refundApplyAt := Some 8\<rparr>) \<noteq> None
 \<and> refundedAt (exampleOrder\<lparr>paidAt := Some 6, refundApplyAt := Some 8\<rparr>) = None
 \<and> mapOrderStatus (exampleOrder\<lparr>paidAt := Some 6, refundApplyAt := Some 8\<rparr>) = Paid"
  using mapOrderStatus_never_refund_pending
    [of "exampleOrder\<lparr>paidAt := Some 6, refundApplyAt := Some 8\<rparr>"]
  by (simp add: exampleOrder_def)

section \<open>The activation window\<close>

text \<open>
  Claim C4. \<^verbatim>\<open>calculateServiceTimeRangeForOpen\<close> reads the clock once. With \<open>now\<close> that
  reading and \<open>silentEnd\<close> the tracker's parsed silent-period end time: the start time is
  \<open>now\<close> when \<open>now\<close> is strictly before \<open>silentEnd\<close>, and \<open>silentEnd\<close> when \<open>now\<close> is at or
  after it. The end time is the start time advanced by the rule's duration and unit, and
  further by the gift's when there is a gift.
\<close>

theorem calculateServiceTimeRangeForOpen_window:
  fixes trk :: "'a Tracker_scheme"
  shows "(let now = clock w (clockReads w);
              silentEnd = parseDate lib (silentPeriodEndTime trk);
              r = fst (calculateServiceTimeRangeForOpen lib trk rule gift w);
              afterRule = calculateEndTime lib (startTime r) (duration rule) (timeUnit rule)
          in (now < silentEnd \<longrightarrow> startTime r = now)
           \<and> (silentEnd \<le> now \<longrightarrow> startTime r = silentEnd)
           \<and> endTime r = (case gift of
                            None \<Rightarrow> afterRule
                          | Some g \<Rightarrow> calculateEndTime lib afterRule (duration g) (timeUnit g)))"
  by (simp add: calculateServiceTimeRangeForOpen_def getNow_def Let_def split: option.splits)

text \<open>The spec's scenario: silent period until 2024-01-10, 30 days and a gift of 7 days.
  Opened on 2024-01-05 the window is 2024-01-05 to 2024-02-11 (day 42); opened on day 11
  it starts on day 10 and ends on day 47.\<close>

theorem calculateServiceTimeRangeForOpen_window_witness:
  "clock exampleWorld (clockReads exampleWorld) < parseDate exampleLib (silentPeriodEndTime exampleTracker)
 \<and> fst (calculateServiceTimeRangeForOpen exampleLib exampleTracker
          \<lparr>duration = 30, timeUnit = ''day''\<rparr> (Some \<lparr>duration = 7, timeUnit = ''day''\<rparr>)
          exampleWorld) = \<lparr>startTime = 5, endTime = 42\<rparr>
 \<and> parseDate exampleLib (silentPeriodEndTime exampleTracker)
     \<le> clock (exampleWorld\<lparr>clockReads := 6\<rparr>) (clockReads (exampleWorld\<lparr>clockReads := 6\<rparr>))
 \<and> fst (calculateServiceTimeRangeForOpen exampleLib exampleTracker
          \<lparr>duration = 30, timeUnit = ''day''\<rparr> (Some \<lparr>duration = 7, timeUnit = ''day''\<rparr>)
          (exampleWorld\<lparr>clockReads := 6\<rparr>)) = \<lparr>startTime = 10, endTime = 47\<rparr>"
proof -
  let ?rule = "\<lparr>duration = 30, timeUnit = ''day''\<rparr>"
  let ?gift = "Some \<lparr>duration = 7, timeUnit = ''day''\<rparr>"
  have early: "clock exampleWorld (clockReads exampleWorld) = 5"
    and late: "clock (exampleWorld\<lparr>clockReads := 6\<rparr>) (clockReads (exampleWorld\<lparr>clockReads := 6\<rparr>)) = 11"
    and silent: "parseDate exampleLib (silentPeriodEndTime exampleTracker) = 10"
    and adv: "\<And>s n. calculateEndTime exampleLib s n ''day'' = s + n"
    by (simp_all add: example_defs)
  from calculateServiceTimeRangeForOpen_window
      [of exampleWorld exampleLib exampleTracker ?rule ?gift, unfolded Let_def early silent]
  have a: "fst (calculateServiceTimeRangeForOpen exampleLib exampleTracker ?rule ?gift exampleWorld)
      = \<lparr>startTime = 5, endTime = 42\<rparr>"
    by (simp add: adv ServiceTimeRange.equality)
  from calculateServiceTimeRangeForOpen_window
      [of "exampleWorld\<lparr>clockReads := 6\<rparr>" exampleLib exampleTracker ?rule ?gift,
        unfolded Let_def late silent]
  have b: "fst (calculateServiceTimeRangeForOpen exampleLib exampleTracker ?rule ?gift
             (exampleWorld\<lparr>clockReads := 6\<rparr>)) = \<lparr>startTime = 10, endTime = 47\<rparr>"
    by (simp add: adv ServiceTimeRange.equality)
  from a b early late silent show ?thesis by simp
qed

section \<open>Resolving the package of a device\<close>

text \<open>
  Claim C6. Call a package merchant-scoped for a device when its merchant id equals the
  merchant id of the device's asset and its models contain the device's model id, and
  platform-wide when its merchant id is null and its models contain the device's model
  id. \<^verbatim>\<open>findDevicePackageByDevice\<close> returns the first merchant-scoped package of the list
  when there is one (so also when a platform-wide package stands earlier in the list);
  when there is none it returns the first platform-wide package; when there is neither
  it returns none.
\<close>

theorem findDevicePackageByDevice_precedence:
  "(let merchantScoped = (\<lambda>p. package_merchantId p = asset_merchantId (asset d)
                              \<and> trackerModelId d \<in> model_id ` set (trackereModels p));
        platformWide = (\<lambda>p. package_merchantId p = None
                              \<and> trackerModelId d \<in> model_id ` set (trackereModels p));
        r = findDevicePackageByDevice d ps
    in ((\<exists>p\<in>set ps. merchantScoped p) \<longrightarrow>
          (\<exists>i<length ps. r = Some (ps ! i) \<and> merchantScoped (ps ! i)
              \<and> (\<forall>j<i. \<not> merchantScoped (ps ! j))))
     \<and> ((\<forall>p\<in>set ps. \<not> merchantScoped p) \<longrightarrow> (\<exists>p\<in>set ps. platformWide p) \<longrightarrow>
          (\<exists>i<length ps. r = Some (ps ! i) \<and> platformWide (ps ! i)
              \<and> (\<forall>j<i. \<not> platformWide (ps ! j))))
     \<and> ((\<forall>p\<in>set ps. \<not> merchantScoped p \<and> \<not> platformWide p) \<longrightarrow> r = None))"
proof -
  let ?mm = "\<lambda>p. isMerchantMatch d p \<and> isModelMatch d p"
  let ?pm = "\<lambda>p. isPlatformMatch p \<and> isModelMatch d p"
  have mm: "?mm p \<longleftrightarrow> package_merchantId p = asset_merchantId (asset d)
                              \<and> trackerModelId d \<in> model_id ` set (trackereModels p)" for p
    by (force simp: isMerchantMatch_def isModelMatch_def list_ex_iff image_iff)
  have pm: "?pm p \<longleftrightarrow> package_merchantId p = None
                              \<and> trackerModelId d \<in> model_id ` set (trackereModels p)" for p
    by (force simp: isPlatformMatch_def isModelMatch_def list_ex_iff image_iff)
  have first: "\<exists>i<length ps. findDevicePackageByDevice d ps = Some (ps ! i) \<and> ?mm (ps ! i)
        \<and> (\<forall>j<i. \<not> ?mm (ps ! j))" if "\<exists>p\<in>set ps. ?mm p"
  proof -
    from that obtain q where q: "find ?mm ps = Some q"
      by (cases "find ?mm ps") (auto simp: find_None_iff)
    then have "findDevicePackageByDevice d ps = Some q"
      by (simp add: findDevicePackageByDevice_def)
    with q show ?thesis
      by (auto simp: find_Some_iff)
  qed
  have second: "\<exists>i<length ps. findDevicePackageByDevice d ps = Some (ps ! i) \<and> ?pm (ps ! i)
        \<and> (\<forall>j<i. \<not> ?pm (ps ! j))" if "\<forall>p\<in>set ps. \<not> ?mm p" and "\<exists>p\<in>set ps. ?pm p"
  proof -
    from that(1) have none: "find ?mm ps = None"
      by (auto simp: find_None_iff)
    from that(2) obtain q where q: "find ?pm ps = Some q"
      by (cases "find ?pm ps") (auto simp: find_None_iff)
    with none have "findDevicePackageByDevice d ps = Some q"
      by (simp add: findDevicePackageByDevice_def)
    with q show ?thesis
      by (auto simp: find_Some_iff)
  qed
  have third: "findDevicePackageByDevice d ps = None" if "\<forall>p\<in>set ps. \<not> ?mm p \<and> \<not> ?pm p"
  proof -
    from that have "find ?mm ps = None" "find ?pm ps = None"
      by (auto simp: find_None_iff)
    then show ?thesis
      by (simp add: findDevicePackageByDevice_def)
  qed
  show ?thesis
    unfolding Let_def mm [symmetric] pm [symmetric]
    using first second third by blast
qed

text \<open>On the example the platform package stands first and matches the model, the
  merchant's package stands second: the merchant's package is the one returned. Without
  it the platform package is returned, and a list with no match gives none.\<close>

theorem findDevicePackageByDevice_precedence_witness:
  "package_merchantId platformPackage = None
 \<and> trackerModelId exampleTracker \<in> model_id ` set (trackereModels platformPackage)
 \<and> package_merchantId merchantPackage = asset_merchantId (asset exampleTracker)
 \<and> trackerModelId exampleTracker \<in> model_id ` set (trackereModels merchantPackage)
 \<and> findDevicePackageByDevice exampleTracker [platformPackage, merchantPackage]
     = Some merchantPackage
 \<and> findDevicePackageByDevice exampleTracker [platformPackage] = Some platformPackage
 \<and> findDevicePackageByDevice exampleTracker [] = None"
  using findDevicePackageByDevice_precedence [of exampleTracker "[platformPackage, merchantPackage]"]
    findDevicePackageByDevice_precedence [of exampleTracker "[platformPackage]"]
    findDevicePackageByDevice_precedence [of exampleTracker "[]"]
  by (simp add: findDevicePackageByDevice_def isMerchantMatch_def isModelMatch_def
      isPlatformMatch_def example_defs)

section \<open>Binding a batch\<close>


text \<open>Collecting statements reads the clock and draws UUIDs; it writes nothing and
  calls no service. The statements for the notification configs never reject: each
  appends one config.\<close>

lemma notificationConfigTasks_world:
  "prisma (snd (notificationConfigTasks acc aid ks w)) = prisma w
 \<and> cdcSent (snd (notificationConfigTasks acc aid ks w)) = cdcSent w
 \<and> profitSharingRecords (snd (notificationConfigTasks acc aid ks w)) = profitSharingRecords w
 \<and> alarmRefreshed (snd (notificationConfigTasks acc aid ks w)) = alarmRefreshed w
 \<and> statusCleared (snd (notificationConfigTasks acc aid ks w)) = statusCleared w"
  by (induction ks arbitrary: w)
    (simp_all add: createUUID_def getNow_def Let_def split_beta)


lemma buildTasks_world:
  "prisma (snd (buildTasks lib acc uid now xs w)) = prisma w
 \<and> cdcSent (snd (buildTasks lib acc uid now xs w)) = cdcSent w
 \<and> profitSharingRecords (snd (buildTasks lib acc uid now xs w)) = profitSharingRecords w
 \<and> alarmRefreshed (snd (buildTasks lib acc uid now xs w)) = alarmRefreshed w
 \<and> statusCleared (snd (buildTasks lib acc uid now xs w)) = statusCleared w"
proof (induction xs arbitrary: w)
  case Nil
  show ?case by simp
next
  case (Cons x xs)
  show ?case
    using Cons.IH [of "snd (notificationConfigTasks acc (asset_id (asset (tracker x))) (alarmTypes lib) w)"]
      notificationConfigTasks_world [of acc "asset_id (asset (tracker x))" "alarmTypes lib" w]
    by (auto simp: Let_def split: sum.splits prod.splits)
qed

text \<open>Collecting the statements throws exactly when some device has neither a service
  end time nor a window, and what it throws is the TypeError.\<close>

lemma assetTask_Inl:
  "assetTask uid now x = Inl e \<longleftrightarrow>
     e = TypeError \<and> serviceEndTime (asset (tracker x)) = None \<and> serviceTimeRange x = None"
  by (auto simp: assetTask_def split: option.splits)

lemma buildTasks_Inl:
  "fst (buildTasks lib acc uid now xs w) = Inl e \<longleftrightarrow>
     e = TypeError \<and>
     (\<exists>x\<in>set xs. serviceEndTime (asset (tracker x)) = None \<and> serviceTimeRange x = None)"
proof (induction xs arbitrary: w)
  case Nil
  show ?case by simp
next
  case (Cons x xs)
  show ?case
  proof (cases "assetTask uid now x")
    case (Inl e')
    then show ?thesis using assetTask_Inl [of uid now x e'] by auto
  next
    case (Inr task)
    then have nofail: "\<not> (serviceEndTime (asset (tracker x)) = None \<and> serviceTimeRange x = None)"
      using assetTask_Inl [of uid now x TypeError] by auto
    from Inr nofail show ?thesis
      using Cons.IH [of "snd (notificationConfigTasks acc (asset_id (asset (tracker x))) (alarmTypes lib) w)"]
      by (auto simp: Let_def split: sum.splits prod.splits)
  qed
qed




text \<open>Computing the windows touches the clock only; a device whose package does not open
  on binding gets no window.\<close>

lemma serviceTimeRanges_world:
  "prisma (snd (serviceTimeRanges lib vs w)) = prisma w
 \<and> cdcSent (snd (serviceTimeRanges lib vs w)) = cdcSent w
 \<and> profitSharingRecords (snd (serviceTimeRanges lib vs w)) = profitSharingRecords w
 \<and> alarmRefreshed (snd (serviceTimeRanges lib vs w)) = alarmRefreshed w
 \<and> statusCleared (snd (serviceTimeRanges lib vs w)) = statusCleared w"
  by (induction vs arbitrary: w)
    (simp_all add: calculateServiceTimeRangeForOpen_def getNow_def Let_def split_beta)

lemma serviceTimeRanges_none:
  "v \<in> set vs \<Longrightarrow> \<not> isRelatedOpen (devicePackage v) \<Longrightarrow>
   \<lparr>tracker = dp_tracker v, serviceTimeRange = None\<rparr> \<in> set (fst (serviceTimeRanges lib vs w))"
  by (induction vs arbitrary: w) (auto simp: Let_def split_beta)






text \<open>The two ways through \<^verbatim>\<open>bindDeviceToUserCore\<close>: collecting throws, or the
  transaction runs and, when it commits, the fan-out follows.\<close>

lemma bindDeviceToUserCore_throws:
  assumes "fst (buildTasks lib acc uid (clock w (clockReads w)) xs
             (w\<lparr>clockReads := Suc (clockReads w)\<rparr>)) = Inl e"
  shows "fst (bindDeviceToUserCore lib acc xs uid w) = Inl e"
    and "prisma (snd (bindDeviceToUserCore lib acc xs uid w)) = prisma w"
    and "cdcSent (snd (bindDeviceToUserCore lib acc xs uid w)) = cdcSent w"
    and "alarmRefreshed (snd (bindDeviceToUserCore lib acc xs uid w)) = alarmRefreshed w"
    and "statusCleared (snd (bindDeviceToUserCore lib acc xs uid w)) = statusCleared w"
  using assms
    buildTasks_world [of lib acc uid "clock w (clockReads w)" xs "w\<lparr>clockReads := Suc (clockReads w)\<rparr>"]
  by (auto simp: bindDeviceToUserCore_def getNow_def split: prod.splits sum.splits)





text \<open>
  Claim C8. The claim fails on the code. For a device that was never activated the
  asset statement reads \<^verbatim>\<open>x.serviceTimeRange!.endTime\<close>, and \<^verbatim>\<open>bindDevicesToUser\<close> itself
  gives every device whose package does not open on binding the window \<^verbatim>\<open>null\<close>. So for
  every batch that contains such a device the binding does not report an outcome: the
  read throws a TypeError while the statements are collected. What does hold is the
  second half of the claim: no row of the database is written for the batch, and no
  downstream service is called. This is shown for \<^verbatim>\<open>bindDeviceToUserCore\<close> and for
  \<^verbatim>\<open>bindDevicesToUser\<close>.
\<close>

theorem bindDevicesToUser_missing_window_throws:
  "(x \<in> set devices \<and> serviceEndTime (asset (tracker x)) = None \<and> serviceTimeRange x = None \<longrightarrow>
      (let r = bindDeviceToUserCore lib accountId devices uid w
       in fst r = Inl TypeError \<and> prisma (snd r) = prisma w \<and> cdcSent (snd r) = cdcSent w
        \<and> alarmRefreshed (snd r) = alarmRefreshed w \<and> statusCleared (snd r) = statusCleared w))
 \<and> (v \<in> set devicesWithPackage \<and> serviceEndTime (asset (dp_tracker v)) = None
        \<and> \<not> isRelatedOpen (devicePackage v) \<longrightarrow>
      (let r = bindDevicesToUser lib accountId devicesWithPackage user w
       in fst r = Inl TypeError \<and> prisma (snd r) = prisma w \<and> cdcSent (snd r) = cdcSent w
        \<and> alarmRefreshed (snd r) = alarmRefreshed w \<and> statusCleared (snd r) = statusCleared w))"
proof -
  have core: "fst (bindDeviceToUserCore lib accountId ds uid' w0) = Inl TypeError
      \<and> prisma (snd (bindDeviceToUserCore lib accountId ds uid' w0)) = prisma w0
      \<and> cdcSent (snd (bindDeviceToUserCore lib accountId ds uid' w0)) = cdcSent w0
      \<and> alarmRefreshed (snd (bindDeviceToUserCore lib accountId ds uid' w0)) = alarmRefreshed w0
      \<and> statusCleared (snd (bindDeviceToUserCore lib accountId ds uid' w0)) = statusCleared w0"
    if "y \<in> set ds" "serviceEndTime (asset (tracker y)) = None" "serviceTimeRange y = None"
    for y ds uid' w0
  proof -
    have "fst (buildTasks lib accountId uid' (clock w0 (clockReads w0)) ds
             (w0\<lparr>clockReads := Suc (clockReads w0)\<rparr>)) = Inl TypeError"
      using that buildTasks_Inl [of lib accountId uid' "clock w0 (clockReads w0)" ds
          "w0\<lparr>clockReads := Suc (clockReads w0)\<rparr>" TypeError] by auto
    from bindDeviceToUserCore_throws [OF this] show ?thesis by simp
  qed
  have orch: "fst (bindDevicesToUser lib accountId devicesWithPackage user w) = Inl TypeError
      \<and> prisma (snd (bindDevicesToUser lib accountId devicesWithPackage user w)) = prisma w
      \<and> cdcSent (snd (bindDevicesToUser lib accountId devicesWithPackage user w)) = cdcSent w
      \<and> alarmRefreshed (snd (bindDevicesToUser lib accountId devicesWithPackage user w)) = alarmRefreshed w
      \<and> statusCleared (snd (bindDevicesToUser lib accountId devicesWithPackage user w)) = statusCleared w"
    if v: "v \<in> set devicesWithPackage" "serviceEndTime (asset (dp_tracker v)) = None"
      "\<not> isRelatedOpen (devicePackage v)"
  proof -
    let ?s = "serviceTimeRanges lib devicesWithPackage w"
    let ?y = "\<lparr>tracker = dp_tracker v, serviceTimeRange = None\<rparr>"
    have "?y \<in> set (fst ?s)" using v serviceTimeRanges_none by blast
    from core [OF this, of "user_id user" "snd ?s"] v(2)
      serviceTimeRanges_world [of lib devicesWithPackage w]
    show ?thesis
      by (simp add: bindDevicesToUser_def split_beta)
  qed
  from core [of x devices uid w] orch show ?thesis
    by (simp add: Let_def)
qed

theorem bindDevicesToUser_missing_window_throws_witness:
  "exampleDevices ! 1 \<in> set exampleDevices
 \<and> serviceEndTime (asset (dp_tracker (exampleDevices ! 1))) = None
 \<and> \<not> isRelatedOpen (devicePackage (exampleDevices ! 1))
 \<and> fst (bindDevicesToUser exampleLib ''acc'' exampleDevices \<lparr>user_id = ''u1''\<rparr> exampleWorld)
     = Inl TypeError
 \<and> prisma (snd (bindDevicesToUser exampleLib ''acc'' exampleDevices \<lparr>user_id = ''u1''\<rparr>
       exampleWorld)) = prisma exampleWorld
 \<and> \<lparr>tracker = exampleNewTracker, serviceTimeRange = None\<rparr>
     \<in> set [\<lparr>tracker = exampleTracker, serviceTimeRange = None\<rparr>,
            \<lparr>tracker = exampleNewTracker, serviceTimeRange = None\<rparr>]
 \<and> fst (bindDeviceToUserCore exampleLib ''acc''
          [\<lparr>tracker = exampleTracker, serviceTimeRange = None\<rparr>,
           \<lparr>tracker = exampleNewTracker, serviceTimeRange = None\<rparr>] ''u1'' exampleWorld)
     = Inl TypeError"
proof -
  have hyps: "exampleDevices ! 1 \<in> set exampleDevices
      \<and> serviceEndTime (asset (dp_tracker (exampleDevices ! 1))) = None
      \<and> \<not> isRelatedOpen (devicePackage (exampleDevices ! 1))"
    by (simp add: example_defs)
  have hyps': "\<lparr>tracker = exampleNewTracker, serviceTimeRange = None\<rparr>
        \<in> set [\<lparr>tracker = exampleTracker, serviceTimeRange = None\<rparr>,
               \<lparr>tracker = exampleNewTracker, serviceTimeRange = None\<rparr>]
      \<and> serviceEndTime (asset (tracker \<lparr>tracker = exampleNewTracker, serviceTimeRange = None\<rparr>)) = None
      \<and> serviceTimeRange \<lparr>tracker = exampleNewTracker, serviceTimeRange = None\<rparr> = None"
    by (simp add: example_defs)
  note th = bindDevicesToUser_missing_window_throws
    [of "\<lparr>tracker = exampleNewTracker, serviceTimeRange = None\<rparr>"
        "[\<lparr>tracker = exampleTracker, serviceTimeRange = None\<rparr>,
          \<lparr>tracker = exampleNewTracker, serviceTimeRange = None\<rparr>]"
        exampleLib "''acc''" "''u1''" exampleWorld
        "exampleDevices ! 1" exampleDevices "\<lparr>user_id = ''u1''\<rparr>", unfolded Let_def]
  from th hyps hyps' show ?thesis by blast
qed

end
